theory Spec2Isabelle
  imports Complex_Main "HOL-Library.Sublist"
begin

section \<open>Python values, exceptions and the process environment\<close>

text \<open>
  The script \<^verbatim>\<open>autogen_tdd_crew.py\<close> builds dictionaries, reads the process
  environment, runs subprocesses, prints, and reads a line from standard input. Python
  values are a datatype; a dictionary literal is an association list in the order it is
  written. A float literal is kept as the number it is written as (no arithmetic is done
  on it). Strings are \<^typ>\<open>string\<close>; a character stands for the code point of its
  number (code points below 256).
\<close>

datatype pyval =
    PNone
  | PStr string
  | PInt int
  | PFloat real
  | PList "pyval list"
  | PDict "(string \<times> pyval) list"

text \<open>
  Exceptions that the modelled code can meet. \<open>sys.exit(n)\<close> raises \<open>SystemExit n\<close>;
  \<open>OtherOSError\<close> is an \<open>OSError\<close> that is not a \<open>FileNotFoundError\<close>. A call
  yields \<open>Inl e\<close> when it raises \<open>e\<close> and \<open>Inr v\<close> when it returns \<open>v\<close>.
\<close>

datatype py_exn =
    FileNotFoundError
  | CalledProcessError int
  | OtherOSError
  | KeyError string
  | EOFError
  | ValueError
  | RuntimeError
  | AttributeError
  | SystemExit int

subsection \<open>String methods\<close>

text \<open>
  \<open>str.isspace\<close> on one character, for code points below 256: the ASCII white space
  9..13, the separators 28..31, the space, and U+0085 and U+00A0.
\<close>

definition isspace :: "char \<Rightarrow> bool" where
  "isspace c = (of_char c \<in> {9, 10, 11, 12, 13, 28, 29, 30, 31, 32, 133, 160 :: nat})"

text \<open>\<open>s.rstrip()\<close>: drops the white space at the right end of \<open>s\<close>.\<close>

definition rstrip :: "string \<Rightarrow> string" where
  "rstrip s = rev (dropWhile isspace (rev s))"

text \<open>\<open>s.endswith(t)\<close>: the last \<open>len(t)\<close> characters of \<open>s\<close> are \<open>t\<close>.\<close>

definition endswith :: "string \<Rightarrow> string \<Rightarrow> bool" where
  "endswith s t = (length t \<le> length s \<and> drop (length s - length t) s = t)"

text \<open>\<open>t in s\<close> on strings: \<open>t\<close> occurs in \<open>s\<close> as a contiguous piece.\<close>

fun str_in :: "string \<Rightarrow> string \<Rightarrow> bool" where
  "str_in t [] = (t = [])"
| "str_in t (c # cs) = (take (length t) (c # cs) = t \<or> str_in t cs)"

section \<open>The Executor's termination test\<close>

text \<open>
  Line 186: \<^verbatim>\<open>is_termination_msg=lambda x: x.get("content", "").rstrip().endswith("TERMINATE")\<close>.
  The message \<open>x\<close> is a dictionary. \<open>x.get("content", "")\<close> is the stored value when
  the key is there and the empty string otherwise; \<open>rstrip\<close> exists on strings only, so
  any other stored value (such as \<open>None\<close>) raises \<open>AttributeError\<close>.
\<close>

definition is_termination_msg :: "(string \<rightharpoonup> pyval) \<Rightarrow> py_exn + bool" where
  "is_termination_msg x =
     (let content = (case x ''content'' of None \<Rightarrow> PStr '''' | Some v \<Rightarrow> v)
      in case content of
           PStr s \<Rightarrow> Inr (endswith (rstrip s) ''TERMINATE'')
         | _ \<Rightarrow> Inl AttributeError)"

section \<open>The process environment\<close>

text \<open>
  What the operating system does when a command line is run: the executable is not
  found, the start fails otherwise, or the process completes with a return code and its
  standard output as text.
\<close>

datatype proc = NotFound | OSFailure | Completed int string

text \<open>
  Standard input: the lines still to be read (none left means end of file), a closed
  file object, or no standard input at all (\<open>sys.stdin\<close> is \<open>None\<close>).
\<close>

datatype stdin_state = Lines "string list" | ClosedFile | NoStdin

text \<open>
  The state the script runs in. \<open>platform_system\<close>, \<open>path_exists\<close>, \<open>path_join\<close>
  and \<open>pathsep\<close> stand for \<open>platform.system()\<close>, \<open>os.path.exists\<close>,
  \<open>os.path.join\<close> and \<open>os.pathsep\<close>; \<open>environ\<close> is \<open>os.environ\<close>; \<open>spawn\<close>
  is the operating system's answer to a command line under an environment; \<open>exn_text\<close>
  is \<open>str(e)\<close>. \<open>stdout\<close> collects what is written, oldest first, and \<open>commands\<close>
  records every command line handed to \<open>subprocess.run\<close>.
\<close>

record world =
  platform_system :: string
  environ :: "string \<rightharpoonup> string"
  path_exists :: "string \<Rightarrow> bool"
  path_join :: "string \<Rightarrow> string list \<Rightarrow> string"
  pathsep :: string
  spawn :: "(string \<rightharpoonup> string) \<Rightarrow> string list \<Rightarrow> proc"
  exn_text :: "py_exn \<Rightarrow> string"
  stdin :: stdin_state
  stdout :: "string list"
  commands :: "string list list"

text \<open>\<open>print(s)\<close> writes \<open>s\<close> and a newline.\<close>

definition print :: "string \<Rightarrow> world \<Rightarrow> world" where
  "print s w = w\<lparr>stdout := stdout w @ [s @ [CHR 0x0A]]\<rparr>"

text \<open>
  \<open>input(prompt)\<close>: without a standard input it raises \<open>RuntimeError\<close> at once;
  otherwise it writes the prompt and reads one line, raising \<open>ValueError\<close> on a closed
  file and \<open>EOFError\<close> at end of file. The line is returned without its newline.
\<close>

definition input :: "string \<Rightarrow> world \<Rightarrow> world \<times> (py_exn + string)" where
  "input prompt w =
     (case stdin w of
        NoStdin \<Rightarrow> (w, Inl RuntimeError)
      | ClosedFile \<Rightarrow> (w\<lparr>stdout := stdout w @ [prompt]\<rparr>, Inl ValueError)
      | Lines [] \<Rightarrow> (w\<lparr>stdout := stdout w @ [prompt]\<rparr>, Inl EOFError)
      | Lines (l # ls) \<Rightarrow> (w\<lparr>stdout := stdout w @ [prompt], stdin := Lines ls\<rparr>, Inr l))"

text \<open>
  \<open>subprocess.run(argv, check=check)\<close> with the output captured as text: it raises
  \<open>FileNotFoundError\<close> when the executable is not found, and with \<open>check=True\<close> it
  raises \<open>CalledProcessError\<close> when the return code is not zero. Otherwise it returns
  the return code and the captured output. \<open>run_result\<close> is what the call raises or
  returns; \<open>subprocess_run\<close> also records the command line.
\<close>

definition run_result :: "world \<Rightarrow> string list \<Rightarrow> bool \<Rightarrow> py_exn + int \<times> string" where
  "run_result w argv check =
     (case spawn w (environ w) argv of
        NotFound \<Rightarrow> Inl FileNotFoundError
      | OSFailure \<Rightarrow> Inl OtherOSError
      | Completed rc out \<Rightarrow>
          if check \<and> rc \<noteq> 0 then Inl (CalledProcessError rc) else Inr (rc, out))"

definition subprocess_run ::
  "string list \<Rightarrow> bool \<Rightarrow> world \<Rightarrow> world \<times> (py_exn + int \<times> string)" where
  "subprocess_run argv check w = (w\<lparr>commands := commands w @ [argv]\<rparr>, run_result w argv check)"

section \<open>check_and_pull_ollama_model\<close>

text \<open>
  Lines 15 to 25, the block \<open>OS-Specific Path Setup\<close>: on Windows, when
  \<open>LOCALAPPDATA\<close> is set and not empty and the Ollama directory under it exists and is
  not yet part of \<open>PATH\<close>, the directory is appended to \<open>PATH\<close>.
  \<open>os.environ["PATH"]\<close> raises \<open>KeyError\<close> when \<open>PATH\<close> is not set; it is read only
  after \<open>os.path.exists\<close> has answered yes.
\<close>

definition os_path_setup :: "world \<Rightarrow> world \<times> (py_exn + unit)" where
  "os_path_setup w =
     (if platform_system w = ''Windows'' then
        (case environ w ''LOCALAPPDATA'' of
           None \<Rightarrow> (w, Inr ())
         | Some local_app_data \<Rightarrow>
             if local_app_data = [] then (w, Inr ())
             else
               let ollama_path = path_join w local_app_data [''Programs'', ''Ollama'']
               in if path_exists w ollama_path then
                    (case environ w ''PATH'' of
                       None \<Rightarrow> (w, Inl (KeyError ''PATH''))
                     | Some p \<Rightarrow>
                         if \<not> str_in ollama_path p then
                           let w1 = print (''Adding '' @ ollama_path @ '' to PATH...'') w
                           in (w1\<lparr>environ := (environ w1)(''PATH'' \<mapsto> p @ pathsep w1 @ ollama_path)\<rparr>,
                               Inr ())
                         else (w, Inr ()))
                  else (w, Inr ()))
      else (w, Inr ()))"

text \<open>Lines 28 to 35, the body of the \<open>try\<close>.\<close>

definition list_and_pull :: "string \<Rightarrow> world \<Rightarrow> world \<times> (py_exn + unit)" where
  "list_and_pull model_name w =
     (case subprocess_run [''ollama'', ''list''] False w of
        (w1, Inl e) \<Rightarrow> (w1, Inl e)
      | (w1, Inr (rc, out)) \<Rightarrow>
          if \<not> str_in model_name out then
            let w2 = print (''Model '' @ model_name @ '' not found. Pulling...'') w1
            in (case subprocess_run [''ollama'', ''pull'', model_name] True w2 of
                  (w3, Inl e) \<Rightarrow> (w3, Inl e)
                | (w3, Inr r) \<Rightarrow>
                    (print (''Model '' @ model_name @ '' pulled successfully.'') w3, Inr ()))
          else (print (''Model '' @ model_name @ '' found.'') w1, Inr ()))"

text \<open>
  Lines 12 to 43. The two handlers catch \<open>FileNotFoundError\<close> and
  \<open>CalledProcessError\<close>, print, and call \<open>sys.exit(1)\<close>; any other exception leaves
  the function as it is.
\<close>

definition check_and_pull_ollama_model :: "string \<Rightarrow> world \<Rightarrow> world \<times> (py_exn + unit)" where
  "check_and_pull_ollama_model model_name w =
     (case os_path_setup w of
        (w0, Inl e) \<Rightarrow> (w0, Inl e)
      | (w0, Inr u) \<Rightarrow>
          (case list_and_pull model_name w0 of
             (w1, Inl FileNotFoundError) \<Rightarrow>
               (print (''Error: '' @ [CHR 0x27] @ ''ollama'' @ [CHR 0x27] @
                       '' command not found. Please ensure Ollama is installed and in your PATH.'') w1,
                Inl (SystemExit 1))
           | (w1, Inl (CalledProcessError rc)) \<Rightarrow>
               (print (''Error pulling model: '' @ exn_text w1 (CalledProcessError rc)) w1,
                Inl (SystemExit 1))
           | (w1, r) \<Rightarrow> (w1, r)))"

section \<open>get_llm_config\<close>

text \<open>
  Lines 46 to 74. \<open>if api_key:\<close> holds when the variable is set to a string that is not
  empty. The fallback calls \<open>check_and_pull_ollama_model\<close> before it builds its
  dictionary, so an exception of that call (the \<open>SystemExit\<close> too) leaves
  \<open>get_llm_config\<close> without a return value.
\<close>

definition get_llm_config :: "world \<Rightarrow> world \<times> (py_exn + pyval)" where
  "get_llm_config w =
     (case environ w ''GEMINI_API_KEY'' of
        Some (c # cs) \<Rightarrow>
          (print ''Using Gemini 2.5 Flash configuration.'' w,
           Inr (PDict
             [(''config_list'',
                 PList [PDict [(''model'', PStr ''gemini-2.5-flash''),
                               (''api_key'', PStr (c # cs)),
                               (''api_type'', PStr ''google'')]]),
              (''temperature'', PFloat 0.2),
              (''seed'', PInt 42)]))
      | _ \<Rightarrow>
          (let w1 = print ''GEMINI_API_KEY not found. Falling back to local Ollama.'' w;
               model = ''llama3:8b''
           in case check_and_pull_ollama_model model w1 of
                (w2, Inl e) \<Rightarrow> (w2, Inl e)
              | (w2, Inr u) \<Rightarrow>
                  (w2,
                   Inr (PDict
                     [(''config_list'',
                         PList [PDict [(''model'', PStr model),
                                       (''base_url'', PStr ''http://localhost:11434/v1''),
                                       (''api_key'', PStr ''ollama'')]]),
                      (''temperature'', PFloat 0.2),
                      (''seed'', PInt 42),
                      (''request_timeout'', PInt 300)]))))"

text \<open>\<open>d[k]\<close> read from a dictionary value, and \<open>cfg["config_list"][0]\<close>.\<close>

definition dict_get :: "pyval \<Rightarrow> string \<Rightarrow> pyval option" where
  "dict_get d k = (case d of PDict kvs \<Rightarrow> map_of kvs k | _ \<Rightarrow> None)"

definition config_entry :: "pyval \<Rightarrow> pyval option" where
  "config_entry cfg =
     (case dict_get cfg ''config_list'' of Some (PList (e # es)) \<Rightarrow> Some e | _ \<Rightarrow> None)"

section \<open>CleanUserProxyAgent.get_human_input\<close>

text \<open>
  Lines 84 to 93. The prompt passed in is ignored; the method shows its own prompt and
  returns what \<open>input\<close> returns. It has no handler, so an exception of \<open>input\<close>
  leaves the method.
\<close>

definition custom_prompt :: string where
  "custom_prompt =
     [CHR 0x0A] @ ''   [ENTER] Run Code / Approve'' @ [CHR 0x0A] @
     ''   [Type]  Give Instructions'' @ [CHR 0x0A] @
     ''   [exit]  Quit'' @ [CHR 0x0A] @ ''> ''"

definition get_human_input :: "string \<Rightarrow> world \<Rightarrow> world \<times> (py_exn + string)" where
  "get_human_input prompt w = input custom_prompt w"

section \<open>The group chat\<close>

text \<open>
  Lines 196 to 200: the five agents by name in the order given, no message yet, and at
  most 50 rounds.
\<close>

record group_chat =
  agents :: "string list"
  messages :: "(string \<rightharpoonup> pyval) list"
  max_round :: nat

definition groupchat :: group_chat where
  "groupchat =
     \<lparr>agents = [''Planner'', ''Tester'', ''Coder'', ''Linter'', ''Executor''],
      messages = [],
      max_round = 50\<rparr>"

section \<open>Example environments\<close>

text \<open>
  A Linux machine with no API key in the environment, no \<open>ollama\<close> executable, and an
  input stream at end of file.
\<close>

definition bare_world :: world where
  "bare_world =
     \<lparr>platform_system = ''Linux'',
      environ = Map.empty,
      path_exists = (\<lambda>p. False),
      path_join = (\<lambda>a bs. foldl (\<lambda>p q. p @ ''/'' @ q) a bs),
      pathsep = '':'',
      spawn = (\<lambda>env argv. NotFound),
      exn_text = (\<lambda>e. ''error''),
      stdin = Lines [],
      stdout = [],
      commands = []\<rparr>"

text \<open>
  The same machine with Ollama installed: \<open>ollama list\<close> reports the model named
  \<open>have\<close>, and \<open>ollama pull\<close> succeeds.
\<close>

definition ollama_world :: "string \<Rightarrow> world" where
  "ollama_world have =
     bare_world\<lparr>spawn := (\<lambda>env argv.
        if argv = [''ollama'', ''list''] then Completed 0 (''NAME ID SIZE'' @ [CHR 0x0A] @ have)
        else if take 2 argv = [''ollama'', ''pull''] then Completed 0 []
        else NotFound)\<rparr>"

section \<open>The orchestration loop of the specification\<close>

text \<open>
  The script holds no scheduling loop of its own. It builds the group chat and hands the
  conversation to the library (\<open>GroupChatManager\<close> and \<open>initiate_chat\<close>, lines 196 to
  209), whose code is not part of the sources; of the loop's parameters the script fixes
  the round ceiling, \<open>max_round = 50\<close>. The definitions of this section are therefore
  written from the specification.
\<close>

text \<open>
  Modelled from the spec: the roles and the outcomes of section 3 (the script has the
  five agents, but no classification of a turn).
\<close>

datatype role = Planner | Tester | Coder | Linter | Executor

datatype outcome =
    PLAN | TEST_WRITTEN | CODE_WRITTEN | LINT_CLEAN | LINT_DIRTY
  | TEST_PASS | TEST_FAIL | HUMAN_OVERRIDE | TERMINATE

text \<open>
  Modelled from the spec: a Turn of section 3, missing from the script, where a message
  is a dictionary kept by the library.
\<close>

record turn =
  actor_name :: string
  content :: string
  outcome :: outcome

text \<open>
  Modelled from the spec: the answer of the Router of section 4.1 (the next actor,
  TERMINATE, or the \<open>InvalidOutcome\<close> error), the human decision at the ApprovalGate of
  section 4.2, and the final status of section 6. The script has none of the three.
\<close>

datatype routing = Next role | Stop | InvalidOutcome

datatype gate_decision = Approve | Override string | Quit

datatype final_status = CLEAN_TERMINATE | BUDGET_EXHAUSTED | HUMAN_QUIT | ROUTER_ERROR

text \<open>
  Modelled from the spec: the state of the Orchestrator of section 4.4, missing from the
  script: the Transcript, the RoundCounter, and RUNNING or TERMINATED with a status.
\<close>

datatype run_state = RUNNING | TERMINATED final_status

record session =
  transcript :: "turn list"
  round_counter :: nat
  state :: run_state

text \<open>
  Modelled from the spec: the collaborators of the loop, which the specification leaves
  outside the core and the script leaves to the library and the language model: the
  Router (a function of the last turn, if any, and the round count), the contribution of
  an actor given the transcript, the classification of a contribution into an outcome,
  and the human decision at the gate.
\<close>

record policy =
  router :: "turn option \<Rightarrow> nat \<Rightarrow> routing"
  contribute :: "role \<Rightarrow> turn list \<Rightarrow> string"
  classify :: "role \<Rightarrow> string \<Rightarrow> outcome"
  approval :: "turn list \<Rightarrow> gate_decision"

text \<open>
  Modelled from the spec: the name of an actor (section 3), as the script names its
  agents, and the actors that the ApprovalGate wraps (section 4.2: the Executor, the only
  one with side effects).
\<close>

fun role_name :: "role \<Rightarrow> string" where
  "role_name Planner = ''Planner''"
| "role_name Tester = ''Tester''"
| "role_name Coder = ''Coder''"
| "role_name Linter = ''Linter''"
| "role_name Executor = ''Executor''"

definition side_effecting :: "role \<Rightarrow> bool" where
  "side_effecting a = (a = Executor)"

text \<open>
  Modelled from the spec: step 1 of section 4.4, the last Turn of the Transcript, or
  nothing at the start of a session. The script has no such step.
\<close>

definition last_turn :: "turn list \<Rightarrow> turn option" where
  "last_turn ts = (if ts = [] then None else Some (last ts))"

text \<open>
  Modelled from the spec: steps 4 and 5 of section 4.4 with the gate of section 4.2,
  missing from the script. A side-effecting actor waits for the human decision: a quit
  gives no turn, an instruction becomes a HUMAN_OVERRIDE turn in place of the
  contribution, an approval lets the actor contribute. The contribution is classified
  into a turn.
\<close>

definition contributed :: "policy \<Rightarrow> role \<Rightarrow> turn list \<Rightarrow> turn" where
  "contributed P a ts =
     (let c = contribute P a ts
      in \<lparr>actor_name = role_name a, content = c, outcome = classify P a c\<rparr>)"

definition take_turn :: "policy \<Rightarrow> role \<Rightarrow> turn list \<Rightarrow> turn option" where
  "take_turn P a ts =
     (if side_effecting a then
        (case approval P ts of
           Quit \<Rightarrow> None
         | Override txt \<Rightarrow>
             Some \<lparr>actor_name = role_name a, content = txt, outcome = HUMAN_OVERRIDE\<rparr>
         | Approve \<Rightarrow> Some (contributed P a ts))
      else Some (contributed P a ts))"

text \<open>
  Modelled from the spec: one iteration of the loop of section 4.4, missing from the
  script. A session that is not RUNNING stays as it is. The terminal condition of section
  4.1 comes first: the round count has reached the ceiling (BUDGET_EXHAUSTED), or the
  Router answers TERMINATE (CLEAN_TERMINATE); an \<open>InvalidOutcome\<close> of the Router ends
  the session with ROUTER_ERROR, a quit at the gate with HUMAN_QUIT. Otherwise the turn
  is appended to the Transcript (step 6), the RoundCounter goes up by one (step 7), and
  the session ends with BUDGET_EXHAUSTED when the counter has reached the ceiling
  (step 8).
\<close>

definition orchestrator_step :: "policy \<Rightarrow> nat \<Rightarrow> session \<Rightarrow> session" where
  "orchestrator_step P round_ceiling s =
     (if state s \<noteq> RUNNING then s
      else if round_ceiling \<le> round_counter s
      then s\<lparr>state := TERMINATED BUDGET_EXHAUSTED\<rparr>
      else
        (case router P (last_turn (transcript s)) (round_counter s) of
           Stop \<Rightarrow> s\<lparr>state := TERMINATED CLEAN_TERMINATE\<rparr>
         | InvalidOutcome \<Rightarrow> s\<lparr>state := TERMINATED ROUTER_ERROR\<rparr>
         | Next a \<Rightarrow>
             (case take_turn P a (transcript s) of
                None \<Rightarrow> s\<lparr>state := TERMINATED HUMAN_QUIT\<rparr>
              | Some t \<Rightarrow>
                  (let s' = s\<lparr>transcript := transcript s @ [t],
                              round_counter := round_counter s + 1\<rparr>
                   in if round_ceiling \<le> round_counter s'
                      then s'\<lparr>state := TERMINATED BUDGET_EXHAUSTED\<rparr>
                      else s'))))"

text \<open>
  Modelled from the spec: the loop of section 4.4, \<open>while RUNNING\<close>, missing from the
  script. Its termination is proved with the definition: every iteration of a RUNNING
  session ends the session or moves the RoundCounter one closer to the ceiling.
\<close>

function orchestrate :: "policy \<Rightarrow> nat \<Rightarrow> session \<Rightarrow> session" where
  "orchestrate P round_ceiling s =
     (if state s = RUNNING
      then orchestrate P round_ceiling (orchestrator_step P round_ceiling s)
      else s)"
  by pat_completeness auto
termination
  by (relation "measure (\<lambda>(P, c, s). if state s = RUNNING then Suc (c - round_counter s) else 0)")
     (auto simp: orchestrator_step_def Let_def split: routing.splits option.splits)

declare orchestrate.simps [simp del]

text \<open>
  Modelled from the spec: the session at its start (section 3, Lifecycle): an empty
  Transcript, no round counted, RUNNING. The script starts its chat with
  \<open>messages = []\<close>.
\<close>

definition start_session :: session where
  "start_session = \<lparr>transcript = [], round_counter = 0, state = RUNNING\<rparr>"

text \<open>
  An example policy under which no TERMINATE ever comes: the Router sends a failing
  Executor to the Coder and everybody else to the Executor, every run of the Executor is
  approved and classified as a failed test.
\<close>

definition oscillating :: policy where
  "oscillating =
     \<lparr>router = (\<lambda>t n. case t of
                   None \<Rightarrow> Next Planner
                 | Some u \<Rightarrow> if actor_name u = ''Executor'' then Next Coder else Next Executor),
      contribute = (\<lambda>a ts. ''work''),
      classify = (\<lambda>a c. if a = Executor then TEST_FAIL else CODE_WRITTEN),
      approval = (\<lambda>ts. Approve)\<rparr>"

section \<open>Facts about the string methods\<close>

lemma endswith_iff: "endswith s t \<longleftrightarrow> (\<exists>pre. s = pre @ t)"
proof
  assume "endswith s t"
  then have "s = take (length s - length t) s @ t"
    by (metis append_take_drop_id endswith_def)
  then show "\<exists>pre. s = pre @ t" ..
next
  assume "\<exists>pre. s = pre @ t"
  then show "endswith s t"
    by (auto simp: endswith_def)
qed

lemma rstrip_append_spaces:
  assumes "\<forall>c \<in> set ws. isspace c" and "ys \<noteq> []" and "\<not> isspace (last ys)"
  shows "rstrip (ys @ ws) = ys"
proof -
  have "\<And>c. c \<in> set (rev ws) \<Longrightarrow> isspace c"
    using assms(1) by simp
  then have a: "dropWhile isspace (rev ws @ rev ys) = dropWhile isspace (rev ys)"
    by (rule dropWhile_append2)
  have "rev ys = last ys # rev (butlast ys)"
    using assms(2) by (metis append_butlast_last_id rev_eq_Cons_iff rev_rev_ident)
  then have "dropWhile isspace (rev ys) = rev ys"
    using assms(3) by (metis dropWhile.simps(2))
  with a show ?thesis
    by (simp add: rstrip_def)
qed

lemma rstrip_decompose:
  "\<exists>ws. s = rstrip s @ ws \<and> (\<forall>c \<in> set ws. isspace c)"
proof -
  have "rev s = takeWhile isspace (rev s) @ dropWhile isspace (rev s)"
    by simp
  then have "s = rev (dropWhile isspace (rev s)) @ rev (takeWhile isspace (rev s))"
    by (metis rev_append rev_rev_ident)
  moreover have "\<forall>c \<in> set (rev (takeWhile isspace (rev s))). isspace c"
    by (auto dest: set_takeWhileD)
  ultimately show ?thesis
    unfolding rstrip_def by blast
qed

lemma not_isspace_E: "\<not> isspace CHR ''E''"
  by (simp add: isspace_def)

lemma rstrip_endswith_TERMINATE:
  "endswith (rstrip s) ''TERMINATE'' \<longleftrightarrow>
     (\<exists>pre ws. s = pre @ ''TERMINATE'' @ ws \<and> (\<forall>c \<in> set ws. isspace c))"
proof
  assume "endswith (rstrip s) ''TERMINATE''"
  then obtain pre where p: "rstrip s = pre @ ''TERMINATE''"
    by (auto simp: endswith_iff)
  obtain ws where w: "s = rstrip s @ ws" "\<forall>c \<in> set ws. isspace c"
    using rstrip_decompose by blast
  from w(1) p have "s = pre @ ''TERMINATE'' @ ws"
    by simp
  with w(2) show "\<exists>pre ws. s = pre @ ''TERMINATE'' @ ws \<and> (\<forall>c \<in> set ws. isspace c)"
    by blast
next
  assume "\<exists>pre ws. s = pre @ ''TERMINATE'' @ ws \<and> (\<forall>c \<in> set ws. isspace c)"
  then obtain pre ws where s: "s = pre @ ''TERMINATE'' @ ws" and ws: "\<forall>c \<in> set ws. isspace c"
    by blast
  have ne: "pre @ ''TERMINATE'' \<noteq> []"
    by simp
  have "last (pre @ ''TERMINATE'') = CHR ''E''"
    by simp
  then have "rstrip ((pre @ ''TERMINATE'') @ ws) = pre @ ''TERMINATE''"
    using rstrip_append_spaces [OF ws ne] not_isspace_E by simp
  then have "rstrip s = pre @ ''TERMINATE''"
    using s by simp
  then show "endswith (rstrip s) ''TERMINATE''"
    by (auto simp: endswith_iff)
qed

section \<open>Facts about the process model\<close>

text \<open>\<open>t in s\<close> holds exactly when \<open>s\<close> is some text, then \<open>t\<close>, then some text.\<close>

lemma str_in_iff: "str_in t s \<longleftrightarrow> (\<exists>a b. s = a @ t @ b)"
proof (induction s)
  case Nil
  then show ?case by auto
next
  case (Cons c cs)
  show ?case
  proof
    assume "str_in t (c # cs)"
    then consider "take (length t) (c # cs) = t" | "str_in t cs"
      by auto
    then show "\<exists>a b. c # cs = a @ t @ b"
    proof cases
      case 1
      then have "c # cs = [] @ t @ drop (length t) (c # cs)"
        by (metis append_Nil append_take_drop_id)
      then show ?thesis by blast
    next
      case 2
      then obtain a b where "cs = a @ t @ b"
        using Cons.IH by blast
      then have "c # cs = (c # a) @ t @ b"
        by simp
      then show ?thesis by blast
    qed
  next
    assume "\<exists>a b. c # cs = a @ t @ b"
    then obtain a b where ab: "c # cs = a @ t @ b"
      by blast
    show "str_in t (c # cs)"
    proof (cases a)
      case Nil
      with ab have "take (length t) (c # cs) = t"
        by (metis append_Nil append_eq_conv_conj)
      then show ?thesis by simp
    next
      case (Cons x xs)
      with ab have "cs = xs @ t @ b"
        by simp
      then have "str_in t cs"
        using Cons.IH by blast
      then show ?thesis by simp
    qed
  qed
qed

lemma commands_print: "commands (print s w) = commands w"
  by (simp add: print_def)

lemma commands_os_path_setup: "commands (fst (os_path_setup w)) = commands w"
  by (auto simp: os_path_setup_def Let_def print_def split: option.splits)

lemma os_path_setup_no_exit: "snd (os_path_setup w) \<noteq> Inl (SystemExit n)"
  by (auto simp: os_path_setup_def Let_def split: option.splits)

text \<open>The outcome of the try body in terms of the two runs.\<close>

lemma snd_list_and_pull_run:
  "snd (list_and_pull m w) =
     (case run_result w [''ollama'', ''list''] False of
        Inl e \<Rightarrow> Inl e
      | Inr (rc, out) \<Rightarrow>
          if \<not> str_in m out then
            (case run_result w [''ollama'', ''pull'', m] True of
               Inl e \<Rightarrow> Inl e | Inr r \<Rightarrow> Inr ())
          else Inr ())"
proof (cases "run_result w [''ollama'', ''list''] False")
  case (Inl e)
  then show ?thesis
    by (simp add: list_and_pull_def subprocess_run_def)
next
  case (Inr r)
  obtain rc out where r: "r = (rc, out)"
    by (cases r)
  have same: "run_result (print s (w\<lparr>commands := cs\<rparr>)) argv chk = run_result w argv chk" for s cs argv chk
    by (simp add: run_result_def print_def)
  show ?thesis
    using Inr r
    by (cases "run_result w [''ollama'', ''pull'', m] True")
       (simp_all add: list_and_pull_def subprocess_run_def same Let_def)
qed

lemma list_and_pull_found:
  assumes "snd (subprocess_run [''ollama'', ''list''] False w) = Inr (rc, out)" and "str_in m out"
  shows "commands (fst (list_and_pull m w)) = commands w @ [[''ollama'', ''list'']]"
  using assms by (simp add: list_and_pull_def subprocess_run_def print_def)

lemma snd_check_and_pull:
  "snd (check_and_pull_ollama_model m w) =
     (case snd (os_path_setup w) of
        Inl e \<Rightarrow> Inl e
      | Inr u \<Rightarrow>
         (case snd (list_and_pull m (fst (os_path_setup w))) of
            Inl FileNotFoundError \<Rightarrow> Inl (SystemExit 1)
          | Inl (CalledProcessError rc) \<Rightarrow> Inl (SystemExit 1)
          | r \<Rightarrow> r))"
proof (cases "os_path_setup w")
  case (Pair w0 r0)
  show ?thesis
  proof (cases r0)
    case (Inl e)
    with Pair show ?thesis
      by (simp add: check_and_pull_ollama_model_def)
  next
    case (Inr u)
    obtain w1 r1 where lp: "list_and_pull m w0 = (w1, r1)"
      by (cases "list_and_pull m w0")
    show ?thesis
    proof (cases r1)
      case (Inl e)
      with Pair Inr lp show ?thesis
        by (cases e) (simp_all add: check_and_pull_ollama_model_def)
    next
      case (Inr v)
      with Pair \<open>r0 = Inr u\<close> lp show ?thesis
        by (simp add: check_and_pull_ollama_model_def)
    qed
  qed
qed

lemma fst_check_and_pull_commands:
  "commands (fst (check_and_pull_ollama_model m w)) =
     (case snd (os_path_setup w) of
        Inl e \<Rightarrow> commands w
      | Inr u \<Rightarrow> commands (fst (list_and_pull m (fst (os_path_setup w)))))"
proof (cases "os_path_setup w")
  case (Pair w0 r0)
  have c0: "commands w0 = commands w"
    using commands_os_path_setup [of w] Pair by simp
  show ?thesis
  proof (cases r0)
    case (Inl e)
    with Pair c0 show ?thesis
      by (simp add: check_and_pull_ollama_model_def)
  next
    case (Inr u)
    obtain w1 r1 where lp: "list_and_pull m w0 = (w1, r1)"
      by (cases "list_and_pull m w0")
    show ?thesis
    proof (cases r1)
      case (Inl e)
      with Pair Inr lp show ?thesis
        by (cases e) (simp_all add: check_and_pull_ollama_model_def commands_print)
    next
      case (Inr v)
      with Pair \<open>r0 = Inr u\<close> lp show ?thesis
        by (simp add: check_and_pull_ollama_model_def)
    qed
  qed
qed

lemma run_result_unchecked: "run_result w argv False \<noteq> Inl (CalledProcessError rc)"
  by (simp add: run_result_def split: proc.splits)

lemma run_result_no_exit: "run_result w argv chk \<noteq> Inl (SystemExit n)"
  by (simp add: run_result_def split: proc.splits)

lemma exit_of_try:
  "(case snd (list_and_pull m w0) of
            Inl FileNotFoundError \<Rightarrow> Inl (SystemExit 1)
          | Inl (CalledProcessError rc) \<Rightarrow> Inl (SystemExit 1)
          | r \<Rightarrow> r) = Inl (SystemExit n) \<longleftrightarrow>
   n = 1 \<and>
   (run_result w0 [''ollama'', ''list''] False = Inl FileNotFoundError \<or>
         (\<exists>rc out. run_result w0 [''ollama'', ''list''] False = Inr (rc, out) \<and> \<not> str_in m out \<and>
            (run_result w0 [''ollama'', ''pull'', m] True = Inl FileNotFoundError \<or>
             (\<exists>rc'. run_result w0 [''ollama'', ''pull'', m] True = Inl (CalledProcessError rc')))))"
proof (cases "run_result w0 [''ollama'', ''list''] False")
  case (Inl e)
  then show ?thesis
    using run_result_unchecked [of w0 "[''ollama'', ''list'']"]
      run_result_no_exit [of w0 "[''ollama'', ''list'']" False]
    by (cases e) (auto simp: snd_list_and_pull_run)
next
  case (Inr r)
  obtain rc out where r: "r = (rc, out)"
    by (cases r)
  show ?thesis
  proof (cases "str_in m out")
    case True
    with Inr r show ?thesis
      by (simp add: snd_list_and_pull_run)
  next
    case False
    show ?thesis
    proof (cases "run_result w0 [''ollama'', ''pull'', m] True")
      case (Inl e)
      with Inr r False show ?thesis
        using run_result_no_exit [of w0 "[''ollama'', ''pull'', m]" True]
        by (cases e) (auto simp: snd_list_and_pull_run)
    next
      case (Inr v)
      with \<open>run_result w0 [''ollama'', ''list''] False = Inr r\<close> r False show ?thesis
        by (simp add: snd_list_and_pull_run)
    qed
  qed
qed

lemma os_path_setup_not_windows:
  "platform_system w \<noteq> ''Windows'' \<Longrightarrow> os_path_setup w = (w, Inr ())"
  by (simp add: os_path_setup_def)

lemma get_llm_config_key:
  assumes "environ w ''GEMINI_API_KEY'' = Some k" and "k \<noteq> []"
  shows "get_llm_config w =
          (print ''Using Gemini 2.5 Flash configuration.'' w,
           Inr (PDict
             [(''config_list'',
                 PList [PDict [(''model'', PStr ''gemini-2.5-flash''),
                               (''api_key'', PStr k),
                               (''api_type'', PStr ''google'')]]),
              (''temperature'', PFloat 0.2),
              (''seed'', PInt 42)]))"
proof -
  obtain c cs where "k = c # cs"
    using assms(2) by (cases k) auto
  with assms(1) show ?thesis
    by (simp add: get_llm_config_def)
qed

lemma get_llm_config_no_key:
  assumes "environ w ''GEMINI_API_KEY'' = None \<or> environ w ''GEMINI_API_KEY'' = Some []"
  shows "get_llm_config w =
          (fst (check_and_pull_ollama_model ''llama3:8b''
                  (print ''GEMINI_API_KEY not found. Falling back to local Ollama.'' w)),
           case snd (check_and_pull_ollama_model ''llama3:8b''
                  (print ''GEMINI_API_KEY not found. Falling back to local Ollama.'' w)) of
             Inl e \<Rightarrow> Inl e
           | Inr u \<Rightarrow>
               Inr (PDict
                     [(''config_list'',
                         PList [PDict [(''model'', PStr ''llama3:8b''),
                                       (''base_url'', PStr ''http://localhost:11434/v1''),
                                       (''api_key'', PStr ''ollama'')]]),
                      (''temperature'', PFloat 0.2),
                      (''seed'', PInt 42),
                      (''request_timeout'', PInt 300)]))"
proof -
  obtain w2 r where c: "check_and_pull_ollama_model ''llama3:8b''
        (print ''GEMINI_API_KEY not found. Falling back to local Ollama.'' w) = (w2, r)"
    by (cases "check_and_pull_ollama_model ''llama3:8b''
        (print ''GEMINI_API_KEY not found. Falling back to local Ollama.'' w)")
  from assms show ?thesis
  proof
    assume "environ w ''GEMINI_API_KEY'' = None"
    with c show ?thesis
      by (cases r) (simp_all add: get_llm_config_def Let_def)
  next
    assume "environ w ''GEMINI_API_KEY'' = Some []"
    with c show ?thesis
      by (cases r) (simp_all add: get_llm_config_def Let_def)
  qed
qed

section \<open>Facts about the loop of the specification\<close>

lemma orchestrator_step_idle: "state s \<noteq> RUNNING \<Longrightarrow> orchestrator_step P c s = s"
  by (simp add: orchestrator_step_def)

lemma orchestrator_step_prefix:
  "prefix (transcript s) (transcript (orchestrator_step P c s))"
  by (auto simp: orchestrator_step_def Let_def split: routing.splits option.splits)

lemma orchestrator_step_counts:
  assumes "round_counter s \<le> c" and "length (transcript s) = round_counter s"
  shows "round_counter (orchestrator_step P c s) \<le> c
    \<and> length (transcript (orchestrator_step P c s)) = round_counter (orchestrator_step P c s)"
  using assms
  by (auto simp: orchestrator_step_def Let_def split: routing.splits option.splits)

lemma orchestrator_step_measure:
  assumes "state s = RUNNING"
  shows "(if state (orchestrator_step P c s) = RUNNING
          then Suc (c - round_counter (orchestrator_step P c s)) else 0)
         < Suc (c - round_counter s)"
  using assms
  by (auto simp: orchestrator_step_def Let_def split: routing.splits option.splits)

lemma orchestrate_stops: "state (orchestrate P c s) \<noteq> RUNNING"
proof (induction P c s rule: orchestrate.induct)
  case (1 P c s)
  then show ?case
    by (cases "state s = RUNNING") (simp_all add: orchestrate.simps [of P c s])
qed

lemma orchestrate_counts:
  "round_counter s \<le> c \<Longrightarrow> length (transcript s) = round_counter s \<Longrightarrow>
   round_counter (orchestrate P c s) \<le> c
   \<and> length (transcript (orchestrate P c s)) = round_counter (orchestrate P c s)"
proof (induction P c s rule: orchestrate.induct)
  case (1 P c s)
  show ?case
  proof (cases "state s = RUNNING")
    case True
    have "round_counter (orchestrator_step P c s) \<le> c
      \<and> length (transcript (orchestrator_step P c s)) = round_counter (orchestrator_step P c s)"
      using "1.prems" by (rule orchestrator_step_counts)
    with True "1.IH" show ?thesis
      by (simp add: orchestrate.simps [of P c s])
  next
    case False
    with "1.prems" show ?thesis
      by (simp add: orchestrate.simps [of P c s])
  qed
qed

lemma orchestrate_prefix: "prefix (transcript s) (transcript (orchestrate P c s))"
proof (induction P c s rule: orchestrate.induct)
  case (1 P c s)
  show ?case
  proof (cases "state s = RUNNING")
    case True
    then have "prefix (transcript (orchestrator_step P c s)) (transcript (orchestrate P c s))"
      using "1.IH" by (simp add: orchestrate.simps [of P c s])
    with orchestrator_step_prefix [of s P c] show ?thesis
      by (rule prefix_order.trans)
  next
    case False
    then show ?thesis
      by (simp add: orchestrate.simps [of P c s])
  qed
qed

lemma funpow_prefix:
  "prefix (transcript s) (transcript ((orchestrator_step P c ^^ k) s))"
proof (induction k)
  case 0
  show ?case by simp
next
  case (Suc k)
  have "prefix (transcript ((orchestrator_step P c ^^ k) s))
          (transcript ((orchestrator_step P c ^^ Suc k) s))"
    by (simp add: orchestrator_step_prefix)
  with Suc show ?case
    by (rule prefix_order.trans)
qed

lemma funpow_stops:
  "(if state s = RUNNING then Suc (c - round_counter s) else 0) \<le> n \<Longrightarrow>
   state ((orchestrator_step P c ^^ n) s) \<noteq> RUNNING"
proof (induction n arbitrary: s)
  case 0
  then show ?case
    by (simp split: if_splits)
next
  case (Suc n)
  have m: "(if state (orchestrator_step P c s) = RUNNING
          then Suc (c - round_counter (orchestrator_step P c s)) else 0) \<le> n"
  proof (cases "state s = RUNNING")
    case True
    with orchestrator_step_measure [OF True, of P c] Suc.prems show ?thesis
      by simp
  next
    case False
    then show ?thesis
      by (simp add: orchestrator_step_idle)
  qed
  have "state ((orchestrator_step P c ^^ n) (orchestrator_step P c s)) \<noteq> RUNNING"
    using m by (rule Suc.IH)
  then show ?case
    by (simp add: funpow_swap1)
qed

section \<open>Claims settled on the code\<close>

subsection \<open>The approval prompt on a closed input stream\<close>

text \<open>
  C7, as the spec states it: when the human input stream is closed or unavailable at an
  approval prompt, the gate turns this into a TERMINATE of the session (status
  HUMAN_QUIT). The prompt of \<open>get_human_input\<close> names \<open>exit\<close> as the reply that
  quits. At end of input the method does not answer with that reply, nor with any other:
  it raises \<open>EOFError\<close>, and nothing in the method handles it.
\<close>

theorem get_human_input_counterexample:
  "stdin bare_world = Lines []
   \<and> snd (get_human_input ''Provide feedback'' bare_world) = Inl EOFError
   \<and> snd (get_human_input ''Provide feedback'' bare_world) \<noteq> Inr ''exit''"
  by (simp add: get_human_input_def input_def bare_world_def)

text \<open>
  C7, amended: \<open>get_human_input\<close> returns a reply only when the human entered that line.
  When the stream is at end of file, is a closed file, or is missing, the method raises
  (\<open>EOFError\<close>, \<open>ValueError\<close>, \<open>RuntimeError\<close>) and returns nothing; so a closed or
  unavailable stream is never read as the empty reply that approves. The method produces
  no TERMINATE or HUMAN_QUIT status of its own: the exception leaves it unhandled.
\<close>

theorem get_human_input_reply_iff:
  "(snd (get_human_input prompt w) = Inr reply \<longleftrightarrow> (\<exists>rest. stdin w = Lines (reply # rest)))
   \<and> (stdin w = Lines [] \<longrightarrow> snd (get_human_input prompt w) = Inl EOFError)
   \<and> (stdin w = ClosedFile \<longrightarrow> snd (get_human_input prompt w) = Inl ValueError)
   \<and> (stdin w = NoStdin \<longrightarrow> snd (get_human_input prompt w) = Inl RuntimeError)"
proof (cases "stdin w")
  case (Lines ls)
  then show ?thesis
    by (cases ls) (auto simp: get_human_input_def input_def)
next
  case ClosedFile
  then show ?thesis
    by (simp add: get_human_input_def input_def)
next
  case NoStdin
  then show ?thesis
    by (simp add: get_human_input_def input_def)
qed

text \<open>
  The amended C7 at end of file, on a closed file, without a standard input, and on a
  stream whose next line is empty.
\<close>

theorem get_human_input_witness:
  "snd (get_human_input ''Provide feedback'' bare_world) = Inl EOFError
   \<and> snd (get_human_input ''Provide feedback'' (bare_world\<lparr>stdin := ClosedFile\<rparr>)) = Inl ValueError
   \<and> snd (get_human_input ''Provide feedback'' (bare_world\<lparr>stdin := NoStdin\<rparr>)) = Inl RuntimeError
   \<and> snd (get_human_input ''Provide feedback'' (bare_world\<lparr>stdin := Lines [[], ''exit'']\<rparr>)) = Inr []"
proof -
  have a: "stdin bare_world = Lines []"
    by (simp add: bare_world_def)
  have b: "\<exists>rest. stdin (bare_world\<lparr>stdin := Lines [[], ''exit'']\<rparr>) = Lines ([] # rest)"
    by simp
  show ?thesis
    using get_human_input_reply_iff [of "''Provide feedback''" bare_world]
      get_human_input_reply_iff [of "''Provide feedback''" "bare_world\<lparr>stdin := ClosedFile\<rparr>"]
      get_human_input_reply_iff [of "''Provide feedback''" "bare_world\<lparr>stdin := NoStdin\<rparr>"]
      get_human_input_reply_iff [of "''Provide feedback''" "bare_world\<lparr>stdin := Lines [[], ''exit'']\<rparr>" "[]"]
      a b
    by simp
qed

subsection \<open>The configuration\<close>

text \<open>
  C8, as the spec states it: without a usable \<open>GEMINI_API_KEY\<close> the function returns the
  Ollama configuration. On a machine with no key and no \<open>ollama\<close> executable it returns
  nothing: the check it runs first ends the process with \<open>SystemExit 1\<close>.
\<close>

theorem get_llm_config_counterexample:
  "environ bare_world ''GEMINI_API_KEY'' = None
   \<and> snd (get_llm_config bare_world) = Inl (SystemExit 1)
   \<and> (\<nexists>cfg. snd (get_llm_config bare_world) = Inr cfg)"
proof -
  have e: "environ bare_world ''GEMINI_API_KEY'' = None"
    by (simp add: bare_world_def)
  let ?w1 = "print ''GEMINI_API_KEY not found. Falling back to local Ollama.'' bare_world"
  have s1: "os_path_setup ?w1 = (?w1, Inr ())"
    by (rule os_path_setup_not_windows) (simp add: bare_world_def print_def)
  have r1: "run_result ?w1 [''ollama'', ''list''] False = Inl FileNotFoundError"
    by (simp add: run_result_def bare_world_def print_def)
  have "snd (list_and_pull ''llama3:8b'' ?w1) = Inl FileNotFoundError"
    using r1 by (simp add: snd_list_and_pull_run)
  then have "snd (check_and_pull_ollama_model ''llama3:8b'' ?w1) = Inl (SystemExit 1)"
    using s1 by (simp add: snd_check_and_pull)
  then have "snd (get_llm_config bare_world) = Inl (SystemExit 1)"
    using e by (simp add: get_llm_config_no_key)
  with e show ?thesis
    by simp
qed

text \<open>
  C8, amended: \<open>get_llm_config\<close> returns the Gemini configuration (model
  \<open>gemini-2.5-flash\<close> with the key of the environment) exactly when \<open>GEMINI_API_KEY\<close>
  is set and not empty, and then runs no command. Otherwise it first runs
  \<open>check_and_pull_ollama_model\<close> on \<open>llama3:8b\<close>; when that call returns, it returns
  the Ollama configuration (model \<open>llama3:8b\<close>, base_url
  \<open>http://localhost:11434/v1\<close>), and when that call raises (the exit with status 1
  included) it returns nothing and the exception goes on. Every configuration it returns
  has temperature 0.2 and seed 42.
\<close>

theorem get_llm_config_branches:
  "(\<forall>k. environ w ''GEMINI_API_KEY'' = Some k \<and> k \<noteq> [] \<longrightarrow>
       snd (get_llm_config w) =
         Inr (PDict
           [(''config_list'',
               PList [PDict [(''model'', PStr ''gemini-2.5-flash''),
                             (''api_key'', PStr k),
                             (''api_type'', PStr ''google'')]]),
            (''temperature'', PFloat 0.2),
            (''seed'', PInt 42)])
       \<and> commands (fst (get_llm_config w)) = commands w)
   \<and> (environ w ''GEMINI_API_KEY'' = None \<or> environ w ''GEMINI_API_KEY'' = Some [] \<longrightarrow>
        fst (get_llm_config w) =
          fst (check_and_pull_ollama_model ''llama3:8b''
                 (print ''GEMINI_API_KEY not found. Falling back to local Ollama.'' w))
        \<and> snd (get_llm_config w) =
          (case snd (check_and_pull_ollama_model ''llama3:8b''
                 (print ''GEMINI_API_KEY not found. Falling back to local Ollama.'' w)) of
             Inl e \<Rightarrow> Inl e
           | Inr u \<Rightarrow>
               Inr (PDict
                 [(''config_list'',
                     PList [PDict [(''model'', PStr ''llama3:8b''),
                                   (''base_url'', PStr ''http://localhost:11434/v1''),
                                   (''api_key'', PStr ''ollama'')]]),
                  (''temperature'', PFloat 0.2),
                  (''seed'', PInt 42),
                  (''request_timeout'', PInt 300)])))
   \<and> ((\<exists>cfg entry. snd (get_llm_config w) = Inr cfg \<and> config_entry cfg = Some entry \<and>
          dict_get entry ''model'' = Some (PStr ''gemini-2.5-flash''))
        \<longleftrightarrow> (\<exists>k. environ w ''GEMINI_API_KEY'' = Some k \<and> k \<noteq> []))
   \<and> (\<forall>cfg. snd (get_llm_config w) = Inr cfg \<longrightarrow>
         dict_get cfg ''temperature'' = Some (PFloat 0.2) \<and>
         dict_get cfg ''seed'' = Some (PInt 42))"
proof -
  consider (key) k where "environ w ''GEMINI_API_KEY'' = Some k" "k \<noteq> []"
    | (nokey) "environ w ''GEMINI_API_KEY'' = None \<or> environ w ''GEMINI_API_KEY'' = Some []"
    by (cases "environ w ''GEMINI_API_KEY''") auto
  then show ?thesis
  proof cases
    case key
    then show ?thesis
      by (simp add: get_llm_config_key dict_get_def config_entry_def commands_print)
  next
    case nokey
    let ?c = "check_and_pull_ollama_model ''llama3:8b''
                 (print ''GEMINI_API_KEY not found. Falling back to local Ollama.'' w)"
    have nk: "\<not> (\<exists>k. environ w ''GEMINI_API_KEY'' = Some k \<and> k \<noteq> [])"
      using nokey by auto
    show ?thesis
    proof (cases "snd ?c")
      case (Inl e)
      with nokey nk show ?thesis
        by (auto simp: get_llm_config_no_key)
    next
      case (Inr u)
      with nokey nk show ?thesis
        by (auto simp: get_llm_config_no_key dict_get_def config_entry_def)
    qed
  qed
qed

text \<open>
  The amended C8 on a machine whose environment holds the key \<open>k1\<close>, and on a machine
  with no key where \<open>ollama list\<close> reports \<open>llama3:8b\<close>.
\<close>

theorem get_llm_config_witness:
  "snd (get_llm_config (bare_world\<lparr>environ := Map.empty(''GEMINI_API_KEY'' \<mapsto> ''k1'')\<rparr>)) =
         Inr (PDict
           [(''config_list'',
               PList [PDict [(''model'', PStr ''gemini-2.5-flash''),
                             (''api_key'', PStr ''k1''),
                             (''api_type'', PStr ''google'')]]),
            (''temperature'', PFloat 0.2),
            (''seed'', PInt 42)])
   \<and> snd (get_llm_config (ollama_world ''llama3:8b'')) =
         Inr (PDict
                 [(''config_list'',
                     PList [PDict [(''model'', PStr ''llama3:8b''),
                                   (''base_url'', PStr ''http://localhost:11434/v1''),
                                   (''api_key'', PStr ''ollama'')]]),
                  (''temperature'', PFloat 0.2),
                  (''seed'', PInt 42),
                  (''request_timeout'', PInt 300)])"
proof -
  let ?g = "bare_world\<lparr>environ := Map.empty(''GEMINI_API_KEY'' \<mapsto> ''k1'')\<rparr>"
  have "environ ?g ''GEMINI_API_KEY'' = Some ''k1'' \<and> ''k1'' \<noteq> []"
    by simp
  then have a: "snd (get_llm_config ?g) =
         Inr (PDict
           [(''config_list'',
               PList [PDict [(''model'', PStr ''gemini-2.5-flash''),
                             (''api_key'', PStr ''k1''),
                             (''api_type'', PStr ''google'')]]),
            (''temperature'', PFloat 0.2),
            (''seed'', PInt 42)])"
    using get_llm_config_branches [of ?g] by blast
  let ?o = "ollama_world ''llama3:8b''"
  let ?w1 = "print ''GEMINI_API_KEY not found. Falling back to local Ollama.'' ?o"
  have e: "environ ?o ''GEMINI_API_KEY'' = None"
    by (simp add: ollama_world_def bare_world_def)
  have s1: "os_path_setup ?w1 = (?w1, Inr ())"
    by (rule os_path_setup_not_windows) (simp add: ollama_world_def bare_world_def print_def)
  have r1: "run_result ?w1 [''ollama'', ''list''] False =
      Inr (0, ''NAME ID SIZE'' @ [CHR 0x0A] @ ''llama3:8b'')"
    by (simp add: run_result_def ollama_world_def bare_world_def print_def)
  have "snd (list_and_pull ''llama3:8b'' ?w1) = Inr ()"
    using r1 by (simp add: snd_list_and_pull_run)
  then have c: "snd (check_and_pull_ollama_model ''llama3:8b'' ?w1) = Inr ()"
    using s1 by (simp add: snd_check_and_pull)
  have "snd (get_llm_config ?o) =
          (case snd (check_and_pull_ollama_model ''llama3:8b'' ?w1) of
             Inl e \<Rightarrow> Inl e
           | Inr u \<Rightarrow>
               Inr (PDict
                 [(''config_list'',
                     PList [PDict [(''model'', PStr ''llama3:8b''),
                                   (''base_url'', PStr ''http://localhost:11434/v1''),
                                   (''api_key'', PStr ''ollama'')]]),
                  (''temperature'', PFloat 0.2),
                  (''seed'', PInt 42),
                  (''request_timeout'', PInt 300)]))"
    using get_llm_config_branches [of ?o] e by blast
  with c a show ?thesis
    by simp
qed

subsection \<open>The termination test\<close>

text \<open>
  C9. The Executor classifies a message as a termination message exactly when its content
  is some text, the literal \<open>TERMINATE\<close>, and then white space only (that is, the content
  with the white space at its right end stripped ends with \<open>TERMINATE\<close>); a message with
  no \<open>content\<close> key is read as having empty content and is not a termination message.
\<close>

theorem is_termination_msg_iff:
  "(x ''content'' = Some (PStr s) \<longrightarrow>
      is_termination_msg x =
        Inr (\<exists>pre ws. s = pre @ ''TERMINATE'' @ ws \<and> (\<forall>c \<in> set ws. isspace c)))
   \<and> (x ''content'' = None \<longrightarrow> is_termination_msg x = Inr False)"
proof (intro conjI impI)
  assume "x ''content'' = Some (PStr s)"
  then show "is_termination_msg x =
      Inr (\<exists>pre ws. s = pre @ ''TERMINATE'' @ ws \<and> (\<forall>c \<in> set ws. isspace c))"
    by (simp add: is_termination_msg_def rstrip_endswith_TERMINATE)
next
  assume "x ''content'' = None"
  then show "is_termination_msg x = Inr False"
    by (simp add: is_termination_msg_def rstrip_def endswith_def)
qed

text \<open>
  C9 on a message that ends with \<open>TERMINATE\<close> and two spaces, and on a message with no
  \<open>content\<close> key.
\<close>

theorem is_termination_msg_witness:
  "is_termination_msg (Map.empty(''content'' \<mapsto> PStr ''All done. TERMINATE  '')) = Inr True
   \<and> is_termination_msg (Map.empty(''role'' \<mapsto> PStr ''user'')) = Inr False"
proof -
  have "''All done. TERMINATE  '' = ''All done. '' @ ''TERMINATE'' @ ''  '' \<and> (\<forall>c \<in> set ''  ''. isspace c)"
    by (simp add: isspace_def)
  then have "\<exists>pre ws. ''All done. TERMINATE  '' = pre @ ''TERMINATE'' @ ws \<and> (\<forall>c \<in> set ws. isspace c)"
    by blast
  then show ?thesis
    using is_termination_msg_iff [of "Map.empty(''content'' \<mapsto> PStr ''All done. TERMINATE  '')" "''All done. TERMINATE  ''"]
      is_termination_msg_iff [of "Map.empty(''role'' \<mapsto> PStr ''user'')"]
    by simp
qed

subsection \<open>The exits of the model check\<close>

text \<open>
  C10. \<open>check_and_pull_ollama_model\<close> ends the process through \<open>sys.exit(1)\<close> in
  exactly two cases, both after the path setup has returned: a run of \<open>ollama\<close> raises
  \<open>FileNotFoundError\<close> (the \<open>list\<close> run, or the \<open>pull\<close> run that follows a list
  without the model), or the \<open>pull\<close> run raises \<open>CalledProcessError\<close>. It never exits
  with another status. When the output of \<open>ollama list\<close> contains the model name, the
  function returns normally and the only command it has run is \<open>ollama list\<close>: no pull
  is attempted.
\<close>

theorem check_and_pull_exit_iff:
  "(snd (check_and_pull_ollama_model m w) = Inl (SystemExit 1) \<longleftrightarrow>
     (\<exists>w0. os_path_setup w = (w0, Inr ()) \<and>
        (run_result w0 [''ollama'', ''list''] False = Inl FileNotFoundError \<or>
         (\<exists>rc out. run_result w0 [''ollama'', ''list''] False = Inr (rc, out) \<and> \<not> str_in m out \<and>
            (run_result w0 [''ollama'', ''pull'', m] True = Inl FileNotFoundError \<or>
             (\<exists>rc'. run_result w0 [''ollama'', ''pull'', m] True = Inl (CalledProcessError rc')))))))
   \<and> (\<forall>n. snd (check_and_pull_ollama_model m w) = Inl (SystemExit n) \<longrightarrow> n = 1)
   \<and> (\<forall>w0 rc out.
         os_path_setup w = (w0, Inr ()) \<and>
         run_result w0 [''ollama'', ''list''] False = Inr (rc, out) \<and> str_in m out \<longrightarrow>
           snd (check_and_pull_ollama_model m w) = Inr () \<and>
           commands (fst (check_and_pull_ollama_model m w)) = commands w @ [[''ollama'', ''list'']])"
proof (intro conjI allI impI)
  show "snd (check_and_pull_ollama_model m w) = Inl (SystemExit 1) \<longleftrightarrow>
     (\<exists>w0. os_path_setup w = (w0, Inr ()) \<and>
        (run_result w0 [''ollama'', ''list''] False = Inl FileNotFoundError \<or>
         (\<exists>rc out. run_result w0 [''ollama'', ''list''] False = Inr (rc, out) \<and> \<not> str_in m out \<and>
            (run_result w0 [''ollama'', ''pull'', m] True = Inl FileNotFoundError \<or>
             (\<exists>rc'. run_result w0 [''ollama'', ''pull'', m] True = Inl (CalledProcessError rc'))))))"
  proof (cases "os_path_setup w")
    case (Pair w0 r0)
    show ?thesis
    proof (cases r0)
      case (Inl e)
      with Pair show ?thesis
        using os_path_setup_no_exit [of w 1] by (simp add: snd_check_and_pull)
    next
      case (Inr u)
      with Pair show ?thesis
        using exit_of_try [of m w0 1] by (simp add: snd_check_and_pull)
    qed
  qed
next
  fix n
  assume a: "snd (check_and_pull_ollama_model m w) = Inl (SystemExit n)"
  show "n = 1"
  proof (cases "os_path_setup w")
    case (Pair w0 r0)
    show ?thesis
    proof (cases r0)
      case (Inl e)
      with Pair a show ?thesis
        using os_path_setup_no_exit [of w n] by (simp add: snd_check_and_pull)
    next
      case (Inr u)
      with Pair a show ?thesis
        using exit_of_try [of m w0 n] by (simp add: snd_check_and_pull)
    qed
  qed
next
  fix w0 rc out
  assume a: "os_path_setup w = (w0, Inr ()) \<and>
         run_result w0 [''ollama'', ''list''] False = Inr (rc, out) \<and> str_in m out"
  then show "snd (check_and_pull_ollama_model m w) = Inr ()"
    by (simp add: snd_check_and_pull snd_list_and_pull_run)
  from a have "commands (fst (list_and_pull m w0)) = commands w0 @ [[''ollama'', ''list'']]"
    by (intro list_and_pull_found [of w0 rc out]) (simp_all add: subprocess_run_def)
  moreover have "commands w0 = commands w"
    using a commands_os_path_setup [of w] by simp
  ultimately show "commands (fst (check_and_pull_ollama_model m w)) = commands w @ [[''ollama'', ''list'']]"
    using a by (simp add: fst_check_and_pull_commands)
qed

text \<open>
  C10 on a machine without \<open>ollama\<close> (exit with status 1), and on a machine where
  \<open>ollama list\<close> reports the model (normal return after the one command).
\<close>

theorem check_and_pull_exit_witness:
  "snd (check_and_pull_ollama_model ''llama3:8b'' bare_world) = Inl (SystemExit 1)
   \<and> snd (check_and_pull_ollama_model ''llama3:8b'' (ollama_world ''llama3:8b'')) = Inr ()
   \<and> commands (fst (check_and_pull_ollama_model ''llama3:8b'' (ollama_world ''llama3:8b'')))
       = [[''ollama'', ''list'']]"
proof -
  have s1: "os_path_setup bare_world = (bare_world, Inr ())"
    by (rule os_path_setup_not_windows) (simp add: bare_world_def)
  have r1: "run_result bare_world [''ollama'', ''list''] False = Inl FileNotFoundError"
    by (simp add: run_result_def bare_world_def)
  have a: "snd (check_and_pull_ollama_model ''llama3:8b'' bare_world) = Inl (SystemExit 1)"
    using check_and_pull_exit_iff [of "''llama3:8b''" bare_world] s1 r1 by blast
  let ?w = "ollama_world ''llama3:8b''"
  let ?out = "''NAME ID SIZE'' @ [CHR 0x0A] @ ''llama3:8b''"
  have s2: "os_path_setup ?w = (?w, Inr ())"
    by (rule os_path_setup_not_windows) (simp add: ollama_world_def bare_world_def)
  have r2: "run_result ?w [''ollama'', ''list''] False = Inr (0, ?out)"
    by (simp add: run_result_def ollama_world_def bare_world_def)
  have i2: "str_in ''llama3:8b'' ?out"
    by simp
  have c2: "commands ?w = []"
    by (simp add: ollama_world_def bare_world_def)
  have "snd (check_and_pull_ollama_model ''llama3:8b'' ?w) = Inr () \<and>
        commands (fst (check_and_pull_ollama_model ''llama3:8b'' ?w)) = commands ?w @ [[''ollama'', ''list'']]"
    using check_and_pull_exit_iff [of "''llama3:8b''" ?w] s2 r2 i2 by blast
  with a c2 show ?thesis
    by simp
qed

section \<open>Claims settled on the loop of the specification\<close>

subsection \<open>The round ceiling\<close>

text \<open>
  C2. For every Router, every contribution and classification, and every human decision
  (so for every sequence of outcomes, with or without a TERMINATE), the session that
  starts empty ends: the loop returns a session that is no longer RUNNING, after at most
  one iteration more than the ceiling. The RoundCounter of the result is at most the
  ceiling and equals the number of turns in the Transcript, so at most that many turns
  were completed. The ceiling that the script configures is \<open>max_round = 50\<close>, and with
  it a session has at most 50 turns.
\<close>

theorem orchestrate_within_ceiling:
  "state (orchestrate P c start_session) \<noteq> RUNNING
   \<and> round_counter (orchestrate P c start_session) \<le> c
   \<and> length (transcript (orchestrate P c start_session))
       = round_counter (orchestrate P c start_session)
   \<and> state ((orchestrator_step P c ^^ Suc c) start_session) \<noteq> RUNNING
   \<and> max_round groupchat = 50
   \<and> length (transcript (orchestrate P (max_round groupchat) start_session)) \<le> 50"
proof -
  have s: "round_counter start_session \<le> c"
    "length (transcript start_session) = round_counter start_session" for c
    by (simp_all add: start_session_def)
  have a: "round_counter (orchestrate P c start_session) \<le> c
      \<and> length (transcript (orchestrate P c start_session))
          = round_counter (orchestrate P c start_session)" for c
    using s by (rule orchestrate_counts)
  have b: "state ((orchestrator_step P c ^^ Suc c) start_session) \<noteq> RUNNING"
    by (rule funpow_stops) (simp add: start_session_def)
  have m: "max_round groupchat = 50"
    by (simp add: groupchat_def)
  from a [of 50] have "length (transcript (orchestrate P 50 start_session)) \<le> 50"
    by simp
  with a [of c] b m orchestrate_stops [of P c start_session] show ?thesis
    by simp
qed

text \<open>
  C2 with a ceiling of 3 under a policy that never terminates by itself (the Coder and
  the Executor take turns on failing tests): the session ends with three turns and the
  status BUDGET_EXHAUSTED.
\<close>

theorem orchestrate_within_ceiling_witness:
  "orchestrate oscillating 3 start_session =
     \<lparr>transcript =
        [\<lparr>actor_name = ''Planner'', content = ''work'', outcome = CODE_WRITTEN\<rparr>,
         \<lparr>actor_name = ''Executor'', content = ''work'', outcome = TEST_FAIL\<rparr>,
         \<lparr>actor_name = ''Coder'', content = ''work'', outcome = CODE_WRITTEN\<rparr>],
      round_counter = 3, state = TERMINATED BUDGET_EXHAUSTED\<rparr>
   \<and> round_counter (orchestrate oscillating 3 start_session) \<le> 3
   \<and> state (orchestrate oscillating 3 start_session) \<noteq> RUNNING"
proof -
  have "orchestrate oscillating 3 start_session =
     \<lparr>transcript =
        [\<lparr>actor_name = ''Planner'', content = ''work'', outcome = CODE_WRITTEN\<rparr>,
         \<lparr>actor_name = ''Executor'', content = ''work'', outcome = TEST_FAIL\<rparr>,
         \<lparr>actor_name = ''Coder'', content = ''work'', outcome = CODE_WRITTEN\<rparr>],
      round_counter = 3, state = TERMINATED BUDGET_EXHAUSTED\<rparr>"
    by code_simp
  then show ?thesis
    using orchestrate_within_ceiling [where P = oscillating and c = 3] by simp
qed

subsection \<open>The append-only Transcript\<close>

text \<open>
  C5. The Transcript is append-only. One iteration of the loop leaves the Transcript a
  prefix of the new one; of two states of a run, the one after \<open>m\<close> iterations and the
  one after \<open>m + k\<close>, the earlier Transcript is a prefix of the later one; and the
  Transcript a session starts with is a prefix of the one the loop ends with. A prefix
  keeps every turn, unchanged and in its place.
\<close>

theorem transcript_append_only:
  "prefix (transcript s) (transcript (orchestrator_step P c s))
   \<and> prefix (transcript ((orchestrator_step P c ^^ m) s))
            (transcript ((orchestrator_step P c ^^ (m + k)) s))
   \<and> prefix (transcript s) (transcript (orchestrate P c s))"
proof -
  have "(orchestrator_step P c ^^ (m + k)) s
      = (orchestrator_step P c ^^ k) ((orchestrator_step P c ^^ m) s)"
    by (simp add: add.commute funpow_add)
  then have "prefix (transcript ((orchestrator_step P c ^^ m) s))
            (transcript ((orchestrator_step P c ^^ (m + k)) s))"
    using funpow_prefix [where s = "(orchestrator_step P c ^^ m) s" and P = P and c = c and k = k]
    by simp
  then show ?thesis
    by (simp add: orchestrator_step_prefix orchestrate_prefix)
qed

text \<open>
  C5 on the run with ceiling 3 of the policy above: the Transcript after the first
  iteration (the Planner's turn) is a prefix of the Transcript after the third.
\<close>

theorem transcript_append_only_witness:
  "transcript ((orchestrator_step oscillating 3 ^^ 1) start_session) =
        [\<lparr>actor_name = ''Planner'', content = ''work'', outcome = CODE_WRITTEN\<rparr>]
   \<and> prefix (transcript ((orchestrator_step oscillating 3 ^^ 1) start_session))
            (transcript ((orchestrator_step oscillating 3 ^^ (1 + 2)) start_session))
   \<and> prefix (transcript start_session) (transcript (orchestrate oscillating 3 start_session))"
proof -
  have "transcript ((orchestrator_step oscillating 3 ^^ 1) start_session) =
        [\<lparr>actor_name = ''Planner'', content = ''work'', outcome = CODE_WRITTEN\<rparr>]"
    by code_simp
  then show ?thesis
    using transcript_append_only [where s = start_session and P = oscillating and c = 3 and m = 1 and k = 2]
    by simp
qed

end
